theory Spec2Isabelle
  imports Main "HOL-Library.Word"
begin

section \<open>Encryption primitives adapter (sources/sync/encryption/encryptor.ts)\<close>

text \<open>
  A \<^verbatim>\<open>Uint8Array\<close> is a list of bytes. A JavaScript value of type \<^verbatim>\<open>any | null\<close> is a
  \<open>'p option\<close>, with \<open>None\<close> for \<^verbatim>\<open>null\<close>. An exception is a value of \<open>js_error\<close>, and a
  call that may throw returns \<open>js_error + 'a\<close> with \<open>Inl\<close> for the exception.
\<close>

type_synonym bytes = "8 word list"

datatype js_error =
    Error string        \<comment> \<open>\<^verbatim>\<open>new Error(message)\<close>\<close>
  | TypeError string    \<comment> \<open>a property read from \<^verbatim>\<open>null\<close>; the string names the property\<close>
  | SyntaxError string  \<comment> \<open>what \<^verbatim>\<open>JSON.parse\<close> throws\<close>
  | NativeError string  \<comment> \<open>a rejection of a native module's promise\<close>

text \<open>
  Every batch method is the same loop:
  \<^verbatim>\<open>const results = []; for (const item of data) { results.push(body(item)); } return results;\<close>
  The accumulator is the array \<^verbatim>\<open>results\<close>, and \<^verbatim>\<open>push\<close> appends at its end.
\<close>

fun for_of_push :: "('a \<Rightarrow> 'b) \<Rightarrow> 'a list \<Rightarrow> 'b list \<Rightarrow> 'b list" where
  "for_of_push body [] results = results"
| "for_of_push body (item # rest) results = for_of_push body rest (results @ [body item])"

text \<open>The same loop when the body may throw: an exception leaves the loop and the method.\<close>

fun for_of_push_throwing ::
  "('a \<Rightarrow> js_error + 'b) \<Rightarrow> 'a list \<Rightarrow> 'b list \<Rightarrow> js_error + 'b list" where
  "for_of_push_throwing body [] results = Inr results"
| "for_of_push_throwing body (item # rest) results =
     (case body item of
        Inl e \<Rightarrow> Inl e
      | Inr v \<Rightarrow> for_of_push_throwing body rest (results @ [v]))"

subsection \<open>SecretBoxEncryption\<close>

text \<open>
  The primitives \<^verbatim>\<open>encryptSecretBox(item, key)\<close> and \<^verbatim>\<open>decryptSecretBox(item, key)\<close> come from
  the libsodium wrapper, which the class only calls; they are parameters of the model. The
  second one is declared to return \<^verbatim>\<open>any | null\<close>. Whether it can also throw is not visible
  from the class, and the loop of \<^verbatim>\<open>decrypt\<close> has no \<^verbatim>\<open>try\<close> block, so the parameter may
  return a value, return \<^verbatim>\<open>null\<close> or throw, and what it throws leaves the loop. The field
  \<^verbatim>\<open>secretKey\<close> is \<open>sb_secretKey\<close> here, since \<^verbatim>\<open>AES256Encryption\<close> has a field of the same
  name.
\<close>

record SecretBoxEncryption =
  sb_secretKey :: bytes

definition SecretBoxEncryption_new :: "bytes \<Rightarrow> SecretBoxEncryption" where
  "SecretBoxEncryption_new secretKey = \<lparr>sb_secretKey = secretKey\<rparr>"

definition SecretBoxEncryption_decrypt ::
  "(bytes \<Rightarrow> bytes \<Rightarrow> js_error + 'p option) \<Rightarrow> SecretBoxEncryption \<Rightarrow> bytes list \<Rightarrow>
   js_error + 'p option list" where
  "SecretBoxEncryption_decrypt decryptSecretBox self data =
     for_of_push_throwing (\<lambda>item. decryptSecretBox item (sb_secretKey self)) data []"

definition SecretBoxEncryption_encrypt ::
  "('p \<Rightarrow> bytes \<Rightarrow> bytes) \<Rightarrow> SecretBoxEncryption \<Rightarrow> 'p list \<Rightarrow> bytes list" where
  "SecretBoxEncryption_encrypt encryptSecretBox self data =
     for_of_push (\<lambda>item. encryptSecretBox item (sb_secretKey self)) data []"

subsection \<open>BoxEncryption\<close>

text \<open>
  The constructor derives the key pair from the seed with \<^verbatim>\<open>sodium.crypto_box_seed_keypair\<close>;
  \<^verbatim>\<open>encrypt\<close> uses the public key and \<^verbatim>\<open>decrypt\<close> the private key. The fields of the
  object that libsodium returns are \<open>kp_privateKey\<close> and \<open>kp_publicKey\<close> here. As for the
  secret box, \<^verbatim>\<open>decryptBox\<close> may return a value, return \<^verbatim>\<open>null\<close> or throw.
\<close>

record keypair =
  kp_privateKey :: bytes
  kp_publicKey :: bytes

record BoxEncryption =
  privateKey :: bytes
  publicKey :: bytes

definition BoxEncryption_new :: "(bytes \<Rightarrow> keypair) \<Rightarrow> bytes \<Rightarrow> BoxEncryption" where
  "BoxEncryption_new crypto_box_seed_keypair seed =
     (let keypair = crypto_box_seed_keypair seed
      in \<lparr>privateKey = kp_privateKey keypair, publicKey = kp_publicKey keypair\<rparr>)"

definition BoxEncryption_encrypt ::
  "('p \<Rightarrow> bytes \<Rightarrow> bytes) \<Rightarrow> BoxEncryption \<Rightarrow> 'p list \<Rightarrow> bytes list" where
  "BoxEncryption_encrypt encryptBox self data =
     for_of_push (\<lambda>item. encryptBox item (publicKey self)) data []"

definition BoxEncryption_decrypt ::
  "(bytes \<Rightarrow> bytes \<Rightarrow> js_error + 'p option) \<Rightarrow> BoxEncryption \<Rightarrow> bytes list \<Rightarrow>
   js_error + 'p option list" where
  "BoxEncryption_decrypt decryptBox self data =
     for_of_push_throwing (\<lambda>item. decryptBox item (privateKey self)) data []"

subsection \<open>AES256Encryption.decrypt\<close>

text \<open>
  The calls inside the \<^verbatim>\<open>try\<close> block may all throw: \<^verbatim>\<open>encodeBase64\<close>, the native
  \<^verbatim>\<open>crypto.decryptAES\<close> (whose promise may reject, and which may resolve to \<^verbatim>\<open>null\<close> or
  \<^verbatim>\<open>undefined\<close>, here \<open>None\<close>) and \<^verbatim>\<open>JSON.parse\<close> (which may return \<^verbatim>\<open>null\<close>). They are
  parameters, collected in one record.
\<close>

record 'p aes_natives =
  encodeBase64 :: "bytes \<Rightarrow> js_error + string"
  decryptAES :: "string \<Rightarrow> string \<Rightarrow> js_error + string option"
  JSON_parse :: "string \<Rightarrow> js_error + 'p option"

record AES256Encryption =
  secretKey :: bytes
  secretKeyB64 :: string

text \<open>\<^verbatim>\<open>!decryptedString\<close>: \<^verbatim>\<open>null\<close>, \<^verbatim>\<open>undefined\<close> and the empty string are falsy.\<close>

fun falsy_string :: "string option \<Rightarrow> bool" where
  "falsy_string None = True"
| "falsy_string (Some s) = (s = [])"

text \<open>The body of the \<^verbatim>\<open>try\<close> block, up to the value it pushes.\<close>

definition AES256_try_body ::
  "'p aes_natives \<Rightarrow> AES256Encryption \<Rightarrow> bytes \<Rightarrow> js_error + 'p option" where
  "AES256_try_body natives self item =
     (case encodeBase64 natives item of
        Inl e \<Rightarrow> Inl e
      | Inr b64 \<Rightarrow>
          (case decryptAES natives b64 (secretKeyB64 self) of
             Inl e \<Rightarrow> Inl e
           | Inr decryptedString \<Rightarrow>
               if falsy_string decryptedString then Inr None
               else JSON_parse natives (the decryptedString)))"

text \<open>\<^verbatim>\<open>try { ... } catch (error) { results.push(null); }\<close>: the handler pushes \<^verbatim>\<open>null\<close>.\<close>

definition AES256_decrypt_item ::
  "'p aes_natives \<Rightarrow> AES256Encryption \<Rightarrow> bytes \<Rightarrow> js_error + 'p option" where
  "AES256_decrypt_item natives self item =
     (case AES256_try_body natives self item of
        Inl error \<Rightarrow> Inr None
      | Inr v \<Rightarrow> Inr v)"

definition AES256Encryption_decrypt ::
  "'p aes_natives \<Rightarrow> AES256Encryption \<Rightarrow> bytes list \<Rightarrow> js_error + 'p option list" where
  "AES256Encryption_decrypt natives self data =
     for_of_push_throwing (AES256_decrypt_item natives self) data []"

text \<open>
  The result pushed for one item: what \<^verbatim>\<open>JSON.parse\<close> returns when the \<^verbatim>\<open>try\<close> block reaches
  it and it does not throw, and \<^verbatim>\<open>null\<close> on every other path.
\<close>

definition AES256_plaintext :: "'p aes_natives \<Rightarrow> AES256Encryption \<Rightarrow> bytes \<Rightarrow> 'p option" where
  "AES256_plaintext natives self item =
     (case AES256_try_body natives self item of
        Inl e \<Rightarrow> None
      | Inr v \<Rightarrow> v)"

section \<open>Socket transport (sources/sync/apiSocket.ts)\<close>

subsection \<open>Types\<close>

datatype connection_status = Disconnected | Connecting | Connected | StatusError

record SyncSocketConfig =
  endpoint :: string
  token :: string

text \<open>
  The socket.io client object, as far as the class reads it: the flags \<^verbatim>\<open>connected\<close> and
  \<^verbatim>\<open>recovered\<close>. The library sets them before it fires an event.
\<close>

record Socket =
  connected :: bool
  recovered :: bool

text \<open>
  \<^verbatim>\<open>ApiEncryption\<close> is imported from \<^verbatim>\<open>./apiEncryption\<close>; the class calls its two methods
  \<^verbatim>\<open>encryptRaw\<close> and \<^verbatim>\<open>decryptRaw\<close> and nothing else of it, so an encryption context is the
  pair of these functions. \<open>'p\<close> is the type of plaintext values (\<^verbatim>\<open>any\<close>), \<open>'c\<close> the type of
  what \<^verbatim>\<open>encryptRaw\<close> returns.
\<close>

record ('p, 'c) ApiEncryption =
  encryptRaw :: "'p \<Rightarrow> 'c"
  decryptRaw :: "'c \<Rightarrow> 'p"

text \<open>
  Listeners and handlers are function objects. A \<^verbatim>\<open>Set\<close> and a \<^verbatim>\<open>Map\<close> compare them by
  identity, so a callback is its identity, a number. A callback is opaque: calling it is
  recorded, it returns normally and it does not call back into the transport.
\<close>

type_synonym listener = nat
type_synonym handler = nat

text \<open>
  The request and the acknowledgement of the \<^verbatim>\<open>rpc-call\<close> exchange. The field \<^verbatim>\<open>method\<close> of
  the request is \<open>rpc_method\<close> here.
\<close>

record 'c rpc_request =
  rpc_method :: string
  params :: 'c

record 'c rpc_ack =
  ok :: bool
  result :: 'c
  error :: "string option"

text \<open>
  What the transport does to its environment, in order: what it hands to the socket (the
  wire) and which callbacks it calls.
\<close>

datatype ('p, 'c) effect =
    IoOpen string string
      \<comment> \<open>\<^verbatim>\<open>io(endpoint, {auth: {token, ...}, ...})\<close>\<close>
  | SocketDisconnect
      \<comment> \<open>\<^verbatim>\<open>socket.disconnect()\<close>\<close>
  | EmitWithAck string "'c rpc_request" "nat option"
      \<comment> \<open>\<^verbatim>\<open>socket.emitWithAck(event, payload)\<close>, with the timeout in milliseconds if one is set\<close>
  | StatusListenerCall listener connection_status
  | ReconnectedListenerCall listener
  | MessageHandlerCall handler 'p

text \<open>How an \<^verbatim>\<open>async\<close> call ends: its promise resolves, rejects, or stays pending for ever.\<close>

datatype 'p outcome = Resolved 'p | Rejected js_error | Pending

text \<open>
  The fields of the class, and the trace of effects so far. A \<^verbatim>\<open>Set\<close> is the list of its
  elements in insertion order, a \<^verbatim>\<open>Map\<close> a partial function.
\<close>

record ('p, 'c) ApiSocket =
  socket :: "Socket option"
  config :: "SyncSocketConfig option"
  encryption :: "('p, 'c) ApiEncryption option"
  messageHandlers :: "string \<rightharpoonup> handler"
  reconnectedListeners :: "listener list"
  statusListeners :: "listener list"
  currentStatus :: connection_status
  trace :: "('p, 'c) effect list"

definition apiSocket :: "('p, 'c) ApiSocket" where
  "apiSocket =
     \<lparr>socket = None, config = None, encryption = None, messageHandlers = Map.empty,
      reconnectedListeners = [], statusListeners = [], currentStatus = Disconnected,
      trace = []\<rparr>"

subsection \<open>The \<^verbatim>\<open>Set\<close> operations the class uses\<close>

definition Set_add :: "'a \<Rightarrow> 'a list \<Rightarrow> 'a list" where
  "Set_add x xs = (if x \<in> set xs then xs else xs @ [x])"

definition Set_delete :: "'a \<Rightarrow> 'a list \<Rightarrow> 'a list" where
  "Set_delete x xs = removeAll x xs"

definition perform :: "('p, 'c) effect \<Rightarrow> ('p, 'c) ApiSocket \<Rightarrow> ('p, 'c) ApiSocket" where
  "perform e self = self\<lparr>trace := trace self @ [e]\<rparr>"

text \<open>\<^verbatim>\<open>xs.forEach(x => f(x))\<close>, in insertion order.\<close>

definition forEach ::
  "('a \<Rightarrow> ('p, 'c) ApiSocket \<Rightarrow> ('p, 'c) ApiSocket) \<Rightarrow> 'a list \<Rightarrow>
   ('p, 'c) ApiSocket \<Rightarrow> ('p, 'c) ApiSocket" where
  "forEach f xs self = fold f xs self"

subsection \<open>Connection management\<close>

definition updateStatus ::
  "('p, 'c) ApiSocket \<Rightarrow> connection_status \<Rightarrow> ('p, 'c) ApiSocket" where
  "updateStatus self status =
     (if currentStatus self \<noteq> status
      then forEach (\<lambda>listener. perform (StatusListenerCall listener status))
             (statusListeners self) (self\<lparr>currentStatus := status\<rparr>)
      else self)"

definition connect :: "('p, 'c) ApiSocket \<Rightarrow> ('p, 'c) ApiSocket" where
  "connect self =
     (case config self of
        None \<Rightarrow> self
      | Some cfg \<Rightarrow>
          if socket self \<noteq> None then self
          else (perform (IoOpen (endpoint cfg) (token cfg)) (updateStatus self Connecting))
                 \<lparr>socket := Some \<lparr>connected = False, recovered = False\<rparr>\<rparr>)"

definition initialize ::
  "('p, 'c) ApiSocket \<Rightarrow> SyncSocketConfig \<Rightarrow> ('p, 'c) ApiEncryption \<Rightarrow> ('p, 'c) ApiSocket" where
  "initialize self cfg enc = connect (self\<lparr>config := Some cfg, encryption := Some enc\<rparr>)"

definition disconnect :: "('p, 'c) ApiSocket \<Rightarrow> ('p, 'c) ApiSocket" where
  "disconnect self =
     updateStatus
       (case socket self of
          Some sock \<Rightarrow> (perform SocketDisconnect self)\<lparr>socket := None\<rparr>
        | None \<Rightarrow> self)
       Disconnected"

subsection \<open>Listener management and message handling\<close>

definition onReconnected :: "('p, 'c) ApiSocket \<Rightarrow> listener \<Rightarrow> ('p, 'c) ApiSocket" where
  "onReconnected self listener =
     self\<lparr>reconnectedListeners := Set_add listener (reconnectedListeners self)\<rparr>"

text \<open>The function \<^verbatim>\<open>onReconnected\<close> returns: \<^verbatim>\<open>() => this.reconnectedListeners.delete(listener)\<close>.\<close>

definition onReconnected_unsubscribe ::
  "('p, 'c) ApiSocket \<Rightarrow> listener \<Rightarrow> ('p, 'c) ApiSocket" where
  "onReconnected_unsubscribe self listener =
     self\<lparr>reconnectedListeners := Set_delete listener (reconnectedListeners self)\<rparr>"

definition onStatusChange :: "('p, 'c) ApiSocket \<Rightarrow> listener \<Rightarrow> ('p, 'c) ApiSocket" where
  "onStatusChange self listener =
     (let self1 = self\<lparr>statusListeners := Set_add listener (statusListeners self)\<rparr>
      in perform (StatusListenerCall listener (currentStatus self1)) self1)"

definition onStatusChange_unsubscribe ::
  "('p, 'c) ApiSocket \<Rightarrow> listener \<Rightarrow> ('p, 'c) ApiSocket" where
  "onStatusChange_unsubscribe self listener =
     self\<lparr>statusListeners := Set_delete listener (statusListeners self)\<rparr>"

definition onMessage :: "('p, 'c) ApiSocket \<Rightarrow> string \<Rightarrow> handler \<Rightarrow> ('p, 'c) ApiSocket" where
  "onMessage self event handler =
     self\<lparr>messageHandlers := (messageHandlers self)(event \<mapsto> handler)\<rparr>"

definition offMessage :: "('p, 'c) ApiSocket \<Rightarrow> string \<Rightarrow> handler \<Rightarrow> ('p, 'c) ApiSocket" where
  "offMessage self event handler =
     self\<lparr>messageHandlers := (messageHandlers self)(event := None)\<rparr>"

subsection \<open>The two RPC shapes\<close>

text \<open>
  Both calls take the acknowledgement the server will give: \<open>Some ack\<close>, or \<open>None\<close> when
  no acknowledgement ever comes. They return the outcome of the promise and the transport
  with the new trace.

  In \<^verbatim>\<open>rpc\<close> the expression \<^verbatim>\<open>this.socket!.emitWithAck(...)\<close> reads the property
  \<^verbatim>\<open>emitWithAck\<close> of \<^verbatim>\<open>this.socket\<close> before it evaluates the arguments, where
  \<^verbatim>\<open>this.encryption!.encryptRaw\<close> is read; the \<^verbatim>\<open>!\<close> of TypeScript checks nothing at run
  time. Without a timeout \<^verbatim>\<open>emitWithAck\<close> waits for the acknowledgement for ever.
\<close>

definition rpc ::
  "('p, 'c) ApiSocket \<Rightarrow> string \<Rightarrow> string \<Rightarrow> 'p \<Rightarrow> 'c rpc_ack option \<Rightarrow>
   'p outcome \<times> ('p, 'c) ApiSocket" where
  "rpc self sessionId meth prms ack =
     (case socket self of
        None \<Rightarrow> (Rejected (TypeError ''emitWithAck''), self)
      | Some sock \<Rightarrow>
          (case encryption self of
             None \<Rightarrow> (Rejected (TypeError ''encryptRaw''), self)
           | Some enc \<Rightarrow>
               let self1 = perform
                     (EmitWithAck ''rpc-call''
                        \<lparr>rpc_method = sessionId @ '':'' @ meth, params = encryptRaw enc prms\<rparr> None)
                     self
               in (case ack of
                     None \<Rightarrow> (Pending, self1)
                   | Some res \<Rightarrow>
                       if ok res then (Resolved (decryptRaw enc (result res)), self1)
                       else (Rejected (Error ''RPC call failed''), self1))))"

text \<open>
  In \<^verbatim>\<open>daemonRpc\<close> the emit has a timeout of 15000 ms: with no acknowledgement the promise of
  socket.io rejects. \<^verbatim>\<open>result.error || 'Daemon RPC call failed'\<close> takes the fallback when the
  field is absent and when it is the empty string. The \<^verbatim>\<open>catch\<close> block throws the error it
  caught again. The calls of \<^verbatim>\<open>console\<close> are left out.
\<close>

definition error_or :: "string option \<Rightarrow> string \<Rightarrow> string" where
  "error_or e fallback = (case e of None \<Rightarrow> fallback | Some m \<Rightarrow> if m = [] then fallback else m)"

definition daemonRpc ::
  "('p, 'c) ApiSocket \<Rightarrow> string \<Rightarrow> string \<Rightarrow> 'p \<Rightarrow> 'c rpc_ack option \<Rightarrow>
   'p outcome \<times> ('p, 'c) ApiSocket" where
  "daemonRpc self machineId meth prms ack =
     (case socket self of
        None \<Rightarrow> (Rejected (Error ''Socket not connected''), self)
      | Some sock \<Rightarrow>
          (case encryption self of
             None \<Rightarrow> (Rejected (Error ''Encryption not initialized''), self)
           | Some enc \<Rightarrow>
               let self1 = perform
                     (EmitWithAck ''rpc-call''
                        \<lparr>rpc_method = machineId @ '':'' @ meth, params = encryptRaw enc prms\<rparr>
                        (Some 15000))
                     self
               in (case ack of
                     None \<Rightarrow> (Rejected (Error ''operation has timed out''), self1)
                   | Some res \<Rightarrow>
                       if ok res then (Resolved (decryptRaw enc (result res)), self1)
                       else (Rejected (Error (error_or (error res) ''Daemon RPC call failed'')),
                             self1))))"

subsection \<open>The event handlers of \<^verbatim>\<open>setupEventHandlers\<close>\<close>

text \<open>
  \<^verbatim>\<open>socket.on('connect', ...)\<close>. \<^verbatim>\<open>this.socket?.recovered\<close> is \<^verbatim>\<open>undefined\<close>, which is falsy,
  when \<^verbatim>\<open>this.socket\<close> is \<^verbatim>\<open>null\<close>.
\<close>

definition socket_recovered :: "('p, 'c) ApiSocket \<Rightarrow> bool" where
  "socket_recovered self = (case socket self of None \<Rightarrow> False | Some sock \<Rightarrow> recovered sock)"

definition on_connect :: "('p, 'c) ApiSocket \<Rightarrow> ('p, 'c) ApiSocket" where
  "on_connect self =
     (let self1 = updateStatus self Connected
      in if \<not> socket_recovered self1
         then forEach (\<lambda>listener. perform (ReconnectedListenerCall listener))
                (reconnectedListeners self1) self1
         else self1)"

definition on_disconnect :: "('p, 'c) ApiSocket \<Rightarrow> ('p, 'c) ApiSocket" where
  "on_disconnect self = updateStatus self Disconnected"

definition on_connect_error :: "('p, 'c) ApiSocket \<Rightarrow> ('p, 'c) ApiSocket" where
  "on_connect_error self = updateStatus self StatusError"

definition on_error :: "('p, 'c) ApiSocket \<Rightarrow> ('p, 'c) ApiSocket" where
  "on_error self = updateStatus self StatusError"

text \<open>\<^verbatim>\<open>socket.onAny((event, data) => ...)\<close>: the handler of the map for this event, if any.\<close>

definition on_any :: "('p, 'c) ApiSocket \<Rightarrow> string \<Rightarrow> 'p \<Rightarrow> ('p, 'c) ApiSocket" where
  "on_any self event data =
     (case messageHandlers self event of
        Some handler \<Rightarrow> perform (MessageHandlerCall handler data) self
      | None \<Rightarrow> self)"

text \<open>The effects of a step: what it adds to the trace.\<close>

definition new_effects ::
  "('p, 'c) ApiSocket \<Rightarrow> ('p, 'c) ApiSocket \<Rightarrow> ('p, 'c) effect list" where
  "new_effects before after = drop (length (trace before)) (trace after)"

text \<open>The payloads a trace hands to the socket under the event name \<^verbatim>\<open>rpc-call\<close>.\<close>

fun rpc_call_payloads :: "('p, 'c) effect list \<Rightarrow> 'c rpc_request list" where
  "rpc_call_payloads [] = []"
| "rpc_call_payloads (EmitWithAck event payload timeout # es) =
     (if event = ''rpc-call'' then payload # rpc_call_payloads es else rpc_call_payloads es)"
| "rpc_call_payloads (e # es) = rpc_call_payloads es"

text \<open>The effects of a trace that reach the socket, and so the network.\<close>

fun network_io :: "('p, 'c) effect \<Rightarrow> bool" where
  "network_io (IoOpen ep tk) = True"
| "network_io SocketDisconnect = True"
| "network_io (EmitWithAck event payload timeout) = True"
| "network_io e = False"

text \<open>Both listener sets hold each listener once: what a \<^verbatim>\<open>Set\<close> guarantees.\<close>

definition Sets_ok :: "('p, 'c) ApiSocket \<Rightarrow> bool" where
  "Sets_ok self \<longleftrightarrow> distinct (reconnectedListeners self) \<and> distinct (statusListeners self)"

section \<open>Facts about the batch loops\<close>

lemma for_of_push_map: "for_of_push body data results = results @ map body data"
  by (induction data arbitrary: results) simp_all

lemma AES256_decrypt_item_Inr:
  "AES256_decrypt_item natives self item = Inr (AES256_plaintext natives self item)"
  by (simp add: AES256_decrypt_item_def AES256_plaintext_def split: sum.splits)

lemma for_of_push_throwing_total:
  assumes "\<And>item. body item = Inr (f item)"
  shows "for_of_push_throwing body data results = Inr (results @ map f data)"
  using assms by (induction data arbitrary: results) simp_all

lemma AES256Encryption_decrypt_map:
  "AES256Encryption_decrypt natives self data = Inr (map (AES256_plaintext natives self) data)"
  unfolding AES256Encryption_decrypt_def
  using for_of_push_throwing_total [of "AES256_decrypt_item natives self" "AES256_plaintext natives self" data "[]"]
  by (simp add: AES256_decrypt_item_Inr)

lemma for_of_push_throwing_nth:
  assumes "length rs = length data"
    and "\<forall>j < length data. body (data ! j) = Inr (rs ! j)"
  shows "for_of_push_throwing body data results = Inr (results @ rs)"
  using assms
proof (induction data arbitrary: rs results)
  case Nil
  then show ?case by simp
next
  case (Cons item rest)
  then obtain r rs' where rs: "rs = r # rs'" and len: "length rs' = length rest"
    by (cases rs) auto
  from Cons.prems(2) rs have first: "body item = Inr r"
    by auto
  have "\<forall>j < length rest. body (rest ! j) = Inr (rs' ! j)"
  proof (intro allI impI)
    fix j assume "j < length rest"
    then have "body ((item # rest) ! Suc j) = Inr (rs ! Suc j)"
      using Cons.prems(2) by auto
    then show "body (rest ! j) = Inr (rs' ! j)"
      by (simp add: rs)
  qed
  with len have "for_of_push_throwing body rest (results @ [r]) = Inr ((results @ [r]) @ rs')"
    by (rule Cons.IH)
  with first rs show ?case by simp
qed

lemma for_of_push_throwing_all_Inr:
  assumes "\<forall>item \<in> set data. body item = Inr (f item)"
  shows "for_of_push_throwing body data [] = Inr (map f data)"
  using for_of_push_throwing_nth [of "map f data" data body "[]"] assms by simp

lemma SecretBox_encrypt_map:
  "SecretBoxEncryption_encrypt enc self data = map (\<lambda>item. enc item (sb_secretKey self)) data"
  by (simp add: SecretBoxEncryption_encrypt_def for_of_push_map)

lemma Box_encrypt_map:
  "BoxEncryption_encrypt enc self data = map (\<lambda>item. enc item (publicKey self)) data"
  by (simp add: BoxEncryption_encrypt_def for_of_push_map)


section \<open>Round trip of the secret-box and box schemes\<close>

text \<open>
  Claim C2. For every finite sequence of plaintext items, \<^verbatim>\<open>decrypt\<close> applied to the result
  of \<^verbatim>\<open>encrypt\<close> gives back the sequence, item by item and in order, for
  \<^verbatim>\<open>SecretBoxEncryption\<close> (one secret key) and for \<^verbatim>\<open>BoxEncryption\<close> (the key pair derived
  from the seed). The primitives are parameters; what is asked of them is that the
  single-item decryption undoes the single-item encryption under the scheme's own keys, on
  the items of the batch.
\<close>

theorem encrypt_decrypt_roundtrip:
  assumes "\<forall>x \<in> set items. decryptSecretBox (encryptSecretBox x key) key = Inr (Some x)"
    and "\<forall>x \<in> set items.
           decryptBox (encryptBox x (kp_publicKey (crypto_box_seed_keypair seed)))
             (kp_privateKey (crypto_box_seed_keypair seed)) = Inr (Some x)"
  shows "SecretBoxEncryption_decrypt decryptSecretBox (SecretBoxEncryption_new key)
           (SecretBoxEncryption_encrypt encryptSecretBox (SecretBoxEncryption_new key) items)
         = Inr (map Some items) \<and>
         BoxEncryption_decrypt decryptBox (BoxEncryption_new crypto_box_seed_keypair seed)
           (BoxEncryption_encrypt encryptBox (BoxEncryption_new crypto_box_seed_keypair seed) items)
         = Inr (map Some items)"
proof
  let ?enc = "\<lambda>item. encryptSecretBox item key"
  have each: "\<forall>j < length (map ?enc items).
      decryptSecretBox (map ?enc items ! j) key = Inr (map Some items ! j)"
    using assms(1) by simp
  show "SecretBoxEncryption_decrypt decryptSecretBox (SecretBoxEncryption_new key)
           (SecretBoxEncryption_encrypt encryptSecretBox (SecretBoxEncryption_new key) items)
         = Inr (map Some items)"
    using for_of_push_throwing_nth [of "map Some items" "map ?enc items"
        "\<lambda>item. decryptSecretBox item key" "[]"] each
    by (simp add: SecretBoxEncryption_decrypt_def SecretBox_encrypt_map SecretBoxEncryption_new_def)
next
  let ?pk = "kp_publicKey (crypto_box_seed_keypair seed)"
  let ?sk = "kp_privateKey (crypto_box_seed_keypair seed)"
  let ?enc = "\<lambda>item. encryptBox item ?pk"
  have each: "\<forall>j < length (map ?enc items).
      decryptBox (map ?enc items ! j) ?sk = Inr (map Some items ! j)"
    using assms(2) by simp
  show "BoxEncryption_decrypt decryptBox (BoxEncryption_new crypto_box_seed_keypair seed)
           (BoxEncryption_encrypt encryptBox (BoxEncryption_new crypto_box_seed_keypair seed) items)
         = Inr (map Some items)"
    using for_of_push_throwing_nth [of "map Some items" "map ?enc items"
        "\<lambda>item. decryptBox item ?sk" "[]"] each
    by (simp add: BoxEncryption_decrypt_def Box_encrypt_map BoxEncryption_new_def Let_def)
qed

theorem encrypt_decrypt_roundtrip_witness:
  "SecretBoxEncryption_decrypt
     (\<lambda>c k. if take (length k) c = k then Inr (Some (drop (length k) c)) else Inr None)
     (SecretBoxEncryption_new [7, 9])
     (SecretBoxEncryption_encrypt (\<lambda>x k. k @ x) (SecretBoxEncryption_new [7, 9])
        [[1, 2, 3], [], [255]])
   = Inr [Some [1, 2, 3], Some [], Some [255 :: 8 word]] \<and>
   BoxEncryption_decrypt
     (\<lambda>c k. if take (length k) c = map (\<lambda>b. b + 1) k then Inr (Some (drop (length k) c))
            else Inr None)
     (BoxEncryption_new (\<lambda>seed. \<lparr>kp_privateKey = seed, kp_publicKey = map (\<lambda>b. b + 1) seed\<rparr>) [4, 5])
     (BoxEncryption_encrypt (\<lambda>x k. k @ x)
        (BoxEncryption_new (\<lambda>seed. \<lparr>kp_privateKey = seed, kp_publicKey = map (\<lambda>b. b + 1) seed\<rparr>) [4, 5])
        [[1, 2, 3], [], [255]])
   = Inr [Some [1, 2, 3], Some [], Some [255 :: 8 word]]"
  using encrypt_decrypt_roundtrip
    [of "[[1, 2, 3], [], [255 :: 8 word]]"
        "\<lambda>c k. if take (length k) c = k then Inr (Some (drop (length k) c)) else Inr None"
        "\<lambda>x k. k @ x" "[7, 9]"
        "\<lambda>c k. if take (length k) c = map (\<lambda>b. b + 1) k then Inr (Some (drop (length k) c))
               else Inr None"
        "\<lambda>x k. k @ x"
        "\<lambda>seed. \<lparr>kp_privateKey = seed, kp_publicKey = map (\<lambda>b. b + 1) seed\<rparr>" "[4, 5]"]
  by simp

section \<open>A batch with one failing item\<close>




section \<open>AES-256: no exception leaves the batch\<close>

text \<open>
  Claim C6. For every batch, \<^verbatim>\<open>AES256Encryption.decrypt\<close> returns normally, with one result
  per item. At each position the result is \<^verbatim>\<open>null\<close> when \<^verbatim>\<open>encodeBase64\<close> throws on the item
  (malformed ciphertext), when \<^verbatim>\<open>decryptAES\<close> rejects (authentication tag mismatch,
  non-text plaintext), when it gives \<^verbatim>\<open>null\<close>, \<^verbatim>\<open>undefined\<close> or the empty string, and when
  \<^verbatim>\<open>JSON.parse\<close> throws; otherwise it is the parsed value.
\<close>

theorem AES256_decrypt_never_throws:
  "\<exists>results.
     AES256Encryption_decrypt natives self data = Inr results \<and>
     length results = length data \<and>
     (\<forall>i < length data.
        (\<forall>e. encodeBase64 natives (data ! i) = Inl e \<longrightarrow> results ! i = None) \<and>
        (\<forall>b64. encodeBase64 natives (data ! i) = Inr b64 \<longrightarrow>
           (\<forall>e. decryptAES natives b64 (secretKeyB64 self) = Inl e \<longrightarrow> results ! i = None) \<and>
           (\<forall>d. decryptAES natives b64 (secretKeyB64 self) = Inr d \<and> falsy_string d \<longrightarrow>
                results ! i = None) \<and>
           (\<forall>s. decryptAES natives b64 (secretKeyB64 self) = Inr (Some s) \<and> s \<noteq> [] \<longrightarrow>
                (\<forall>e. JSON_parse natives s = Inl e \<longrightarrow> results ! i = None) \<and>
                (\<forall>v. JSON_parse natives s = Inr v \<longrightarrow> results ! i = v))))"
proof (intro exI conjI allI impI)
  show "AES256Encryption_decrypt natives self data = Inr (map (AES256_plaintext natives self) data)"
    by (rule AES256Encryption_decrypt_map)
qed (auto simp: AES256_plaintext_def AES256_try_body_def)

theorem AES256_decrypt_never_throws_witness:
  "\<exists>results.
     AES256Encryption_decrypt
       \<lparr>encodeBase64 = (\<lambda>b. if b = [1] then Inl (Error ''malformed'')
                            else Inr (if b = [2] then ''two'' else if b = [3] then ''three''
                                      else if b = [4] then ''four'' else ''five'')),
        decryptAES = (\<lambda>s k. if s = ''two'' then Inl (NativeError ''tag'')
                             else if s = ''three'' then Inr (Some []) else Inr (Some s)),
        JSON_parse = (\<lambda>s. if s = ''four'' then Inl (SyntaxError ''token'') else Inr (Some s))\<rparr>
       \<lparr>secretKey = [107], secretKeyB64 = ''k''\<rparr>
       [[1], [2], [3], [4], [5]] = Inr results \<and>
     length results = 5 \<and>
     results ! 0 = None \<and> results ! 1 = None \<and> results ! 2 = None \<and> results ! 3 = None \<and>
     results ! 4 = Some ''five''"
proof -
  let ?natives = "\<lparr>encodeBase64 = (\<lambda>b :: bytes. if b = [1] then Inl (Error ''malformed'')
                            else Inr (if b = [2] then ''two'' else if b = [3] then ''three''
                                      else if b = [4] then ''four'' else ''five'')),
        decryptAES = (\<lambda>s k :: string. if s = ''two'' then Inl (NativeError ''tag'')
                             else if s = ''three'' then Inr (Some []) else Inr (Some s)),
        JSON_parse = (\<lambda>s. if s = ''four'' then Inl (SyntaxError ''token'') else Inr (Some s))\<rparr>"
  let ?aes = "\<lparr>secretKey = [107], secretKeyB64 = ''k''\<rparr>"
  let ?data = "[[1], [2], [3], [4], [5 :: 8 word]]"
  from AES256_decrypt_never_throws [of ?natives ?aes ?data]
  obtain results where r: "AES256Encryption_decrypt ?natives ?aes ?data = Inr results"
    and len: "length results = length ?data"
    and each: "\<forall>i < length ?data.
        (\<forall>e. encodeBase64 ?natives (?data ! i) = Inl e \<longrightarrow> results ! i = None) \<and>
        (\<forall>b64. encodeBase64 ?natives (?data ! i) = Inr b64 \<longrightarrow>
           (\<forall>e. decryptAES ?natives b64 (secretKeyB64 ?aes) = Inl e \<longrightarrow> results ! i = None) \<and>
           (\<forall>d. decryptAES ?natives b64 (secretKeyB64 ?aes) = Inr d \<and> falsy_string d \<longrightarrow>
                results ! i = None) \<and>
           (\<forall>s. decryptAES ?natives b64 (secretKeyB64 ?aes) = Inr (Some s) \<and> s \<noteq> [] \<longrightarrow>
                (\<forall>e. JSON_parse ?natives s = Inl e \<longrightarrow> results ! i = None) \<and>
                (\<forall>v. JSON_parse ?natives s = Inr v \<longrightarrow> results ! i = v)))"
    by blast
  have r0: "results ! 0 = None" using each [rule_format, of 0] by simp
  have r1: "results ! 1 = None" using each [rule_format, of 1] by simp
  have r2: "results ! 2 = None" using each [rule_format, of 2] by simp
  have r3: "results ! 3 = None" using each [rule_format, of 3] by simp
  have r4: "results ! 4 = Some ''five''" using each [rule_format, of 4] by simp
  from r len r0 r1 r2 r3 r4 show ?thesis by simp
qed

section \<open>Facts about the transport\<close>

lemma trace_perform: "trace (perform e s) = trace s @ [e]"
  by (simp add: perform_def)

lemma forEach_perform:
  "forEach (\<lambda>x. perform (f x)) xs s = s\<lparr>trace := trace s @ map f xs\<rparr>"
  unfolding forEach_def
  by (induction xs arbitrary: s) (simp_all add: perform_def)

lemma updateStatus_eq:
  "updateStatus s st =
     (if currentStatus s \<noteq> st
      then s\<lparr>currentStatus := st,
             trace := trace s @ map (\<lambda>l. StatusListenerCall l st) (statusListeners s)\<rparr>
      else s)"
  by (simp add: updateStatus_def forEach_perform)

lemma new_effects_append: "trace after = trace before @ es \<Longrightarrow> new_effects before after = es"
  by (simp add: new_effects_def)

lemma on_connect_eq:
  "on_connect s =
     (let s1 = updateStatus s Connected
      in if \<not> socket_recovered s1
         then s1\<lparr>trace := trace s1 @ map ReconnectedListenerCall (reconnectedListeners s1)\<rparr>
         else s1)"
  by (simp add: on_connect_def forEach_perform Let_def)

lemma updateStatus_fields:
  "socket (updateStatus s st) = socket s"
  "reconnectedListeners (updateStatus s st) = reconnectedListeners s"
  "statusListeners (updateStatus s st) = statusListeners s"
  "encryption (updateStatus s st) = encryption s"
  "messageHandlers (updateStatus s st) = messageHandlers s"
  by (simp_all add: updateStatus_eq)

lemma trace_updateStatus:
  "trace (updateStatus s st) =
     trace s @ (if currentStatus s \<noteq> st then map (\<lambda>l. StatusListenerCall l st) (statusListeners s) else [])"
  by (simp add: updateStatus_eq)

lemma count_list_map_inj:
  "inj f \<Longrightarrow> count_list (map f xs) (f x) = count_list xs x"
  by (induction xs) (auto dest: injD)

lemma count_list_distinct: "distinct xs \<Longrightarrow> x \<in> set xs \<Longrightarrow> count_list xs x = 1"
  by (induction xs) (auto simp: count_list_0_iff)

lemma count_status_calls:
  "count_list (map (\<lambda>l. StatusListenerCall l st) xs) (ReconnectedListenerCall l) = 0"
  by (induction xs) auto

lemma perform_fields:
  "socket (perform e s) = socket s"
  "encryption (perform e s) = encryption s"
  "reconnectedListeners (perform e s) = reconnectedListeners s"
  "statusListeners (perform e s) = statusListeners s"
  "currentStatus (perform e s) = currentStatus s"
  "messageHandlers (perform e s) = messageHandlers s"
  by (simp_all add: perform_def)

lemma new_effects_self: "new_effects s s = []"
  by (simp add: new_effects_def)

lemma new_effects_perform: "new_effects s (perform e s) = [e]"
  by (simp add: new_effects_def perform_def)

lemma rpc_effects:
  "new_effects self (snd (rpc self sessionId meth prms ack)) =
     (case (socket self, encryption self) of
        (Some sock, Some enc) \<Rightarrow>
          [EmitWithAck ''rpc-call''
             \<lparr>rpc_method = sessionId @ '':'' @ meth, params = encryptRaw enc prms\<rparr> None]
      | _ \<Rightarrow> [])"
  by (simp add: rpc_def Let_def new_effects_self new_effects_perform split: option.splits)

lemma daemonRpc_effects:
  "new_effects self (snd (daemonRpc self machineId meth prms ack)) =
     (case (socket self, encryption self) of
        (Some sock, Some enc) \<Rightarrow>
          [EmitWithAck ''rpc-call''
             \<lparr>rpc_method = machineId @ '':'' @ meth, params = encryptRaw enc prms\<rparr> (Some 15000)]
      | _ \<Rightarrow> [])"
  by (simp add: daemonRpc_def Let_def new_effects_self new_effects_perform split: option.splits)

text \<open>
  The listener sets hold each listener once in the initial transport, and every operation
  above keeps it so.
\<close>

lemma Sets_ok_apiSocket: "Sets_ok apiSocket"
  by (simp add: Sets_ok_def apiSocket_def)

lemma distinct_Set_add: "distinct xs \<Longrightarrow> distinct (Set_add x xs)"
  by (simp add: Set_add_def)

lemma distinct_Set_delete: "distinct xs \<Longrightarrow> distinct (Set_delete x xs)"
  by (simp add: Set_delete_def distinct_removeAll)

lemma Sets_ok_updateStatus: "Sets_ok s \<Longrightarrow> Sets_ok (updateStatus s st)"
  by (simp add: Sets_ok_def updateStatus_fields)

lemma Sets_ok_perform: "Sets_ok s \<Longrightarrow> Sets_ok (perform e s)"
  by (simp add: Sets_ok_def perform_fields)

lemma Sets_ok_connect: "Sets_ok s \<Longrightarrow> Sets_ok (connect s)"
  by (simp add: Sets_ok_def connect_def perform_fields updateStatus_fields split: option.splits)

lemma Sets_ok_initialize: "Sets_ok s \<Longrightarrow> Sets_ok (initialize s cfg enc)"
  unfolding initialize_def by (rule Sets_ok_connect) (simp add: Sets_ok_def)

lemma Sets_ok_disconnect: "Sets_ok s \<Longrightarrow> Sets_ok (disconnect s)"
  unfolding disconnect_def
  by (rule Sets_ok_updateStatus) (simp add: Sets_ok_def perform_fields split: option.splits)

lemma Sets_ok_onReconnected: "Sets_ok s \<Longrightarrow> Sets_ok (onReconnected s l)"
  by (simp add: Sets_ok_def onReconnected_def distinct_Set_add)

lemma Sets_ok_onReconnected_unsubscribe: "Sets_ok s \<Longrightarrow> Sets_ok (onReconnected_unsubscribe s l)"
  by (simp add: Sets_ok_def onReconnected_unsubscribe_def distinct_Set_delete)

lemma Sets_ok_onStatusChange: "Sets_ok s \<Longrightarrow> Sets_ok (onStatusChange s l)"
  by (simp add: Sets_ok_def onStatusChange_def Let_def perform_fields distinct_Set_add)

lemma Sets_ok_onStatusChange_unsubscribe:
  "Sets_ok s \<Longrightarrow> Sets_ok (onStatusChange_unsubscribe s l)"
  by (simp add: Sets_ok_def onStatusChange_unsubscribe_def distinct_Set_delete)

lemma Sets_ok_onMessage: "Sets_ok s \<Longrightarrow> Sets_ok (onMessage s e h)"
  by (simp add: Sets_ok_def onMessage_def)

lemma Sets_ok_offMessage: "Sets_ok s \<Longrightarrow> Sets_ok (offMessage s e h)"
  by (simp add: Sets_ok_def offMessage_def)

lemma Sets_ok_rpc: "Sets_ok s \<Longrightarrow> Sets_ok (snd (rpc s sid m p ack))"
  by (simp add: rpc_def Let_def Sets_ok_perform split: option.splits)

lemma Sets_ok_daemonRpc: "Sets_ok s \<Longrightarrow> Sets_ok (snd (daemonRpc s mid m p ack))"
  by (simp add: daemonRpc_def Let_def Sets_ok_perform split: option.splits)

lemma Sets_ok_on_connect: "Sets_ok s \<Longrightarrow> Sets_ok (on_connect s)"
  by (simp add: on_connect_eq Let_def Sets_ok_def updateStatus_fields)

lemma Sets_ok_on_disconnect: "Sets_ok s \<Longrightarrow> Sets_ok (on_disconnect s)"
  by (simp add: on_disconnect_def Sets_ok_updateStatus)

lemma Sets_ok_on_connect_error: "Sets_ok s \<Longrightarrow> Sets_ok (on_connect_error s)"
  by (simp add: on_connect_error_def Sets_ok_updateStatus)

lemma Sets_ok_on_error: "Sets_ok s \<Longrightarrow> Sets_ok (on_error s)"
  by (simp add: on_error_def Sets_ok_updateStatus)

lemma Sets_ok_on_any: "Sets_ok s \<Longrightarrow> Sets_ok (on_any s e d)"
  by (simp add: on_any_def Sets_ok_perform split: option.splits)

text \<open>The definitions that evaluate a concrete run of the transport.\<close>

lemmas eval_defs =
  apiSocket_def initialize_def connect_def disconnect_def updateStatus_def forEach_def
  perform_def onReconnected_def onStatusChange_def onMessage_def on_any_def on_connect_def
  socket_recovered_def Set_add_def Set_delete_def new_effects_def Sets_ok_def Let_def
  rpc_def daemonRpc_def error_or_def

section \<open>RPC parameters are encrypted\<close>

text \<open>
  Claim C1. Every payload that \<^verbatim>\<open>rpc\<close> or \<^verbatim>\<open>daemonRpc\<close> hands to the socket under
  \<^verbatim>\<open>rpc-call\<close> has as \<^verbatim>\<open>params\<close> the result of \<^verbatim>\<open>encryptRaw\<close> on the caller's parameters,
  whatever the acknowledgement; with a socket and an encryption context each call emits
  exactly one such payload, whose other field is the prefixed method name.
\<close>

theorem rpc_call_params_encrypted:
  "(\<forall>payload \<in> set (rpc_call_payloads (new_effects self (snd (rpc self sessionId meth prms ack)))).
      \<exists>enc. encryption self = Some enc \<and> params payload = encryptRaw enc prms) \<and>
   (\<forall>payload \<in> set (rpc_call_payloads
        (new_effects self (snd (daemonRpc self machineId meth prms ack)))).
      \<exists>enc. encryption self = Some enc \<and> params payload = encryptRaw enc prms) \<and>
   (\<forall>sock enc. socket self = Some sock \<and> encryption self = Some enc \<longrightarrow>
      rpc_call_payloads (new_effects self (snd (rpc self sessionId meth prms ack))) =
        [\<lparr>rpc_method = sessionId @ '':'' @ meth, params = encryptRaw enc prms\<rparr>] \<and>
      rpc_call_payloads (new_effects self (snd (daemonRpc self machineId meth prms ack))) =
        [\<lparr>rpc_method = machineId @ '':'' @ meth, params = encryptRaw enc prms\<rparr>])"
  by (auto simp: rpc_effects daemonRpc_effects split: option.splits)

theorem rpc_call_params_encrypted_witness:
  "rpc_call_payloads
     (new_effects
        (initialize apiSocket \<lparr>endpoint = ''api'', token = ''t''\<rparr> \<lparr>encryptRaw = rev, decryptRaw = rev\<rparr>)
        (snd (rpc
           (initialize apiSocket \<lparr>endpoint = ''api'', token = ''t''\<rparr> \<lparr>encryptRaw = rev, decryptRaw = rev\<rparr>)
           ''s1'' ''ping'' ''x=1'' None)))
   = [\<lparr>rpc_method = ''s1:ping'', params = ''1=x''\<rparr>] \<and>
   rpc_call_payloads
     (new_effects
        (initialize apiSocket \<lparr>endpoint = ''api'', token = ''t''\<rparr> \<lparr>encryptRaw = rev, decryptRaw = rev\<rparr>)
        (snd (daemonRpc
           (initialize apiSocket \<lparr>endpoint = ''api'', token = ''t''\<rparr> \<lparr>encryptRaw = rev, decryptRaw = rev\<rparr>)
           ''m1'' ''ping'' ''x=1'' None)))
   = [\<lparr>rpc_method = ''m1:ping'', params = ''1=x''\<rparr>]"
proof -
  let ?s = "initialize apiSocket \<lparr>endpoint = ''api'', token = ''t''\<rparr>
              \<lparr>encryptRaw = rev, decryptRaw = rev\<rparr> :: (string, string) ApiSocket"
  have sock: "socket ?s = Some \<lparr>connected = False, recovered = False\<rparr>"
    by (simp add: eval_defs)
  have enc: "encryption ?s = Some \<lparr>encryptRaw = rev, decryptRaw = rev\<rparr>"
    by (simp add: eval_defs)
  from rpc_call_params_encrypted [where self = ?s and sessionId = "''s1''" and meth = "''ping''"
        and prms = "''x=1''" and ack = None and machineId = "''m1''",
      THEN conjunct2, THEN conjunct2, rule_format, OF conjI, OF sock enc]
  show ?thesis by simp
qed

section \<open>RPC application failure\<close>

text \<open>
  Claim C3 says that both RPC shapes carry the server's error string. \<^verbatim>\<open>rpc\<close> does not
  read \<^verbatim>\<open>result.error\<close>: the acknowledgement \<^verbatim>\<open>{ok: false, error: 'boom'}\<close> makes it fail
  with the message \<^verbatim>\<open>RPC call failed\<close>.
\<close>

theorem rpc_drops_server_error_counterexample:
  "fst (rpc
     (initialize apiSocket \<lparr>endpoint = ''api'', token = ''t''\<rparr> \<lparr>encryptRaw = rev, decryptRaw = rev\<rparr>)
     ''s1'' ''ping'' ''x=1'' (Some \<lparr>ok = False, result = [], error = Some ''boom''\<rparr>))
   = Rejected (Error ''RPC call failed'') \<and>
   fst (rpc
     (initialize apiSocket \<lparr>endpoint = ''api'', token = ''t''\<rparr> \<lparr>encryptRaw = rev, decryptRaw = rev\<rparr>)
     ''s1'' ''ping'' ''x=1'' (Some \<lparr>ok = False, result = [], error = Some ''boom''\<rparr>))
   \<noteq> Rejected (Error ''boom'')"
  by (simp add: eval_defs)

text \<open>
  Claim C3, amended. With a socket and an encryption context and an acknowledgement whose
  \<^verbatim>\<open>ok\<close> is false: \<^verbatim>\<open>rpc\<close> fails with the generic message \<^verbatim>\<open>RPC call failed\<close>, whatever
  error string the server sent; \<^verbatim>\<open>daemonRpc\<close> fails with the server's error string when
  that is present and not empty, and with the generic \<^verbatim>\<open>Daemon RPC call failed\<close> when it is
  absent or empty.
\<close>

theorem rpc_application_failure:
  assumes "socket self = Some sock" and "encryption self = Some enc" and "\<not> ok res"
  shows "fst (rpc self sessionId meth prms (Some res)) = Rejected (Error ''RPC call failed'') \<and>
         (\<forall>m. error res = Some m \<and> m \<noteq> [] \<longrightarrow>
            fst (daemonRpc self machineId meth prms (Some res)) = Rejected (Error m)) \<and>
         (error res = None \<or> error res = Some [] \<longrightarrow>
            fst (daemonRpc self machineId meth prms (Some res)) =
              Rejected (Error ''Daemon RPC call failed''))"
  using assms by (auto simp: rpc_def daemonRpc_def Let_def error_or_def)

theorem rpc_application_failure_witness:
  "fst (rpc
     (initialize apiSocket \<lparr>endpoint = ''api'', token = ''t''\<rparr> \<lparr>encryptRaw = rev, decryptRaw = rev\<rparr>)
     ''s1'' ''ping'' ''x=1'' (Some \<lparr>ok = False, result = [], error = Some ''boom''\<rparr>))
   = Rejected (Error ''RPC call failed'') \<and>
   fst (daemonRpc
     (initialize apiSocket \<lparr>endpoint = ''api'', token = ''t''\<rparr> \<lparr>encryptRaw = rev, decryptRaw = rev\<rparr>)
     ''m1'' ''ping'' ''x=1'' (Some \<lparr>ok = False, result = [], error = Some ''boom''\<rparr>))
   = Rejected (Error ''boom'') \<and>
   fst (daemonRpc
     (initialize apiSocket \<lparr>endpoint = ''api'', token = ''t''\<rparr> \<lparr>encryptRaw = rev, decryptRaw = rev\<rparr>)
     ''m1'' ''ping'' ''x=1'' (Some \<lparr>ok = False, result = [], error = None\<rparr>))
   = Rejected (Error ''Daemon RPC call failed'') \<and>
   fst (daemonRpc
     (initialize apiSocket \<lparr>endpoint = ''api'', token = ''t''\<rparr> \<lparr>encryptRaw = rev, decryptRaw = rev\<rparr>)
     ''m1'' ''ping'' ''x=1'' (Some \<lparr>ok = False, result = [], error = Some []\<rparr>))
   = Rejected (Error ''Daemon RPC call failed'')"
proof -
  let ?s = "initialize apiSocket \<lparr>endpoint = ''api'', token = ''t''\<rparr>
              \<lparr>encryptRaw = rev, decryptRaw = rev\<rparr> :: (string, string) ApiSocket"
  have sock: "socket ?s = Some \<lparr>connected = False, recovered = False\<rparr>"
    by (simp add: eval_defs)
  have enc: "encryption ?s = Some \<lparr>encryptRaw = rev, decryptRaw = rev\<rparr>"
    by (simp add: eval_defs)
  note th = rpc_application_failure [OF sock enc, where sessionId = "''s1''" and meth = "''ping''"
      and prms = "''x=1''" and machineId = "''m1''"]
  from th [where res = "\<lparr>ok = False, result = [], error = Some ''boom''\<rparr>"]
    th [where res = "\<lparr>ok = False, result = [], error = None\<rparr>"]
    th [where res = "\<lparr>ok = False, result = [], error = Some []\<rparr>"]
  show ?thesis by simp
qed

section \<open>Preconditions of \<^verbatim>\<open>daemonRpc\<close>\<close>

text \<open>
  The two guards of \<^verbatim>\<open>daemonRpc\<close>: with \<^verbatim>\<open>this.socket\<close> equal to \<^verbatim>\<open>null\<close> the call fails with
  \<^verbatim>\<open>Socket not connected\<close>; with a socket object and no encryption context it fails with
  the different message \<^verbatim>\<open>Encryption not initialized\<close>. In both cases the transport is left
  as it was: nothing is handed to the socket.
\<close>

lemma daemonRpc_guards:
  "(socket self = None \<longrightarrow>
      daemonRpc self machineId meth prms ack = (Rejected (Error ''Socket not connected''), self) \<and>
      filter network_io (new_effects self (snd (daemonRpc self machineId meth prms ack))) = []) \<and>
   (socket self \<noteq> None \<and> encryption self = None \<longrightarrow>
      daemonRpc self machineId meth prms ack =
        (Rejected (Error ''Encryption not initialized''), self) \<and>
      filter network_io (new_effects self (snd (daemonRpc self machineId meth prms ack))) = [])"
  by (auto simp: daemonRpc_def new_effects_self)

text \<open>
  Claim C4 asks for the first failure whenever no active connection exists. The first guard
  tests \<^verbatim>\<open>!this.socket\<close> only, and \<^verbatim>\<open>connect()\<close> stores the socket object before any
  connection is made; \<^verbatim>\<open>updateMachineMetadata\<close> tests \<^verbatim>\<open>!this.socket || !this.socket.connected\<close>
  for the same message. So with a socket object that is not connected and an encryption
  context, \<^verbatim>\<open>daemonRpc\<close> does not fail fast: it hands the \<^verbatim>\<open>rpc-call\<close> request to the socket
  with the timeout of 15000 ms, and with no acknowledgement it ends in the timeout error of
  socket.io.
\<close>

theorem daemonRpc_emits_when_not_connected:
  assumes "socket self = Some sock" and "\<not> connected sock" and "encryption self = Some enc"
  shows "filter network_io (new_effects self (snd (daemonRpc self machineId meth prms ack))) =
           [EmitWithAck ''rpc-call''
              \<lparr>rpc_method = machineId @ '':'' @ meth, params = encryptRaw enc prms\<rparr>
              (Some 15000)] \<and>
         fst (daemonRpc self machineId meth prms None) =
           Rejected (Error ''operation has timed out'')"
  using assms by (simp add: daemonRpc_effects) (simp add: daemonRpc_def Let_def)

theorem daemonRpc_emits_when_not_connected_witness:
  "socket (initialize apiSocket \<lparr>endpoint = ''api'', token = ''t''\<rparr>
             \<lparr>encryptRaw = rev, decryptRaw = rev\<rparr> :: (string, string) ApiSocket)
     = Some \<lparr>connected = False, recovered = False\<rparr> \<and>
   currentStatus (initialize apiSocket \<lparr>endpoint = ''api'', token = ''t''\<rparr>
             \<lparr>encryptRaw = rev, decryptRaw = rev\<rparr> :: (string, string) ApiSocket)
     = Connecting \<and>
   filter network_io
     (new_effects
        (initialize apiSocket \<lparr>endpoint = ''api'', token = ''t''\<rparr>
           \<lparr>encryptRaw = rev, decryptRaw = rev\<rparr>)
        (snd (daemonRpc
           (initialize apiSocket \<lparr>endpoint = ''api'', token = ''t''\<rparr>
              \<lparr>encryptRaw = rev, decryptRaw = rev\<rparr>)
           ''m1'' ''spawn'' ''x=1'' None)))
     = [EmitWithAck ''rpc-call'' \<lparr>rpc_method = ''m1:spawn'', params = ''1=x''\<rparr> (Some 15000)] \<and>
   fst (daemonRpc
          (initialize apiSocket \<lparr>endpoint = ''api'', token = ''t''\<rparr>
             \<lparr>encryptRaw = rev, decryptRaw = rev\<rparr>)
          ''m1'' ''spawn'' ''x=1'' None)
     = Rejected (Error ''operation has timed out'')"
proof -
  let ?s = "initialize apiSocket \<lparr>endpoint = ''api'', token = ''t''\<rparr>
              \<lparr>encryptRaw = rev, decryptRaw = rev\<rparr> :: (string, string) ApiSocket"
  have sock: "socket ?s = Some \<lparr>connected = False, recovered = False\<rparr>"
    by (simp add: eval_defs)
  have cur: "currentStatus ?s = Connecting"
    by (simp add: eval_defs)
  have enc: "encryption ?s = Some \<lparr>encryptRaw = rev, decryptRaw = rev\<rparr>"
    by (simp add: eval_defs)
  have down: "\<not> connected \<lparr>connected = False, recovered = False\<rparr>"
    by simp
  from daemonRpc_emits_when_not_connected [OF sock down enc, where machineId = "''m1''"
      and meth = "''spawn''" and prms = "''x=1''" and ack = None] sock cur
  show ?thesis by simp
qed

section \<open>\<^verbatim>\<open>rpc\<close> checks no precondition\<close>

text \<open>
  Claim C10. \<^verbatim>\<open>rpc\<close> called with \<^verbatim>\<open>this.socket\<close> or \<^verbatim>\<open>this.encryption\<close> equal to \<^verbatim>\<open>null\<close>
  fails with the \<^verbatim>\<open>TypeError\<close> of a property read from \<^verbatim>\<open>null\<close>, where \<^verbatim>\<open>daemonRpc\<close> in
  the same state fails with one of its two descriptive errors.
\<close>

theorem rpc_unguarded:
  "(socket self = None \<longrightarrow>
      rpc self sessionId meth prms ack = (Rejected (TypeError ''emitWithAck''), self)) \<and>
   (socket self \<noteq> None \<and> encryption self = None \<longrightarrow>
      rpc self sessionId meth prms ack = (Rejected (TypeError ''encryptRaw''), self)) \<and>
   (socket self = None \<or> encryption self = None \<longrightarrow>
      (\<exists>property. fst (rpc self sessionId meth prms ack) = Rejected (TypeError property)) \<and>
      (\<exists>message. fst (daemonRpc self sessionId meth prms ack) = Rejected (Error message)) \<and>
      fst (rpc self sessionId meth prms ack) \<noteq> fst (daemonRpc self sessionId meth prms ack))"
  by (auto simp: rpc_def daemonRpc_def split: option.splits)

theorem rpc_unguarded_witness:
  "rpc (apiSocket :: (string, string) ApiSocket) ''s1'' ''ping'' ''x=1''
       (Some \<lparr>ok = True, result = ''r'', error = None\<rparr>)
     = (Rejected (TypeError ''emitWithAck''), apiSocket) \<and>
   rpc ((apiSocket :: (string, string) ApiSocket)
                \<lparr>socket := Some \<lparr>connected = True, recovered = False\<rparr>\<rparr>)
       ''s1'' ''ping'' ''x=1'' (Some \<lparr>ok = True, result = ''r'', error = None\<rparr>)
     = (Rejected (TypeError ''encryptRaw''),
        apiSocket\<lparr>socket := Some \<lparr>connected = True, recovered = False\<rparr>\<rparr>)"
  using rpc_unguarded [of "apiSocket :: (string, string) ApiSocket" "''s1''" "''ping''"
      "''x=1''" "Some \<lparr>ok = True, result = ''r'', error = None\<rparr>"]
    rpc_unguarded [of "(apiSocket :: (string, string) ApiSocket)
                \<lparr>socket := Some \<lparr>connected = True, recovered = False\<rparr>\<rparr>" "''s1''" "''ping''"
      "''x=1''" "Some \<lparr>ok = True, result = ''r'', error = None\<rparr>"]
  by (simp add: apiSocket_def)

section \<open>Reconnection\<close>

text \<open>
  Claim C7. When the \<^verbatim>\<open>connect\<close> event fires and the socket's \<^verbatim>\<open>recovered\<close> flag is false,
  every registered reconnected listener is called exactly once, and nothing else is called
  as a reconnected listener; when the flag is true, no reconnected listener is called.
\<close>

theorem on_connect_reconnected_listeners:
  fixes self :: "('p, 'c) ApiSocket"
  assumes "Sets_ok self" and "socket self = Some sock"
  shows "(\<not> recovered sock \<longrightarrow>
            (\<forall>l \<in> set (reconnectedListeners self).
               count_list (new_effects self (on_connect self)) (ReconnectedListenerCall l) = 1) \<and>
            (\<forall>l. ReconnectedListenerCall l \<in> set (new_effects self (on_connect self)) \<longrightarrow>
               l \<in> set (reconnectedListeners self))) \<and>
         (recovered sock \<longrightarrow>
            (\<forall>l. ReconnectedListenerCall l \<notin> set (new_effects self (on_connect self))))"
proof -
  define st :: "('p, 'c) effect list" where "st = (if currentStatus self \<noteq> Connected
             then map (\<lambda>l. StatusListenerCall l Connected) (statusListeners self) else [])"
  have tr: "trace (updateStatus self Connected) = trace self @ st"
    by (simp add: trace_updateStatus st_def)
  have rec: "socket_recovered (updateStatus self Connected) = recovered sock"
    using assms(2) by (simp add: socket_recovered_def updateStatus_fields)
  have inj: "inj ReconnectedListenerCall" by (simp add: inj_def)
  have no: "count_list st (ReconnectedListenerCall l) = 0" for l
    by (simp add: count_status_calls st_def)
  have no': "ReconnectedListenerCall l \<notin> set st" for l
    by (auto simp: st_def)
  show ?thesis
  proof (cases "recovered sock")
    case True
    then have "trace (on_connect self) = trace self @ st"
      using rec by (simp add: on_connect_eq Let_def tr)
    then have "new_effects self (on_connect self) = st" by (rule new_effects_append)
    with True no' show ?thesis by simp
  next
    case False
    then have "trace (on_connect self) =
        trace self @ (st @ map ReconnectedListenerCall (reconnectedListeners self))"
      using rec by (simp add: on_connect_eq Let_def tr updateStatus_fields)
    then have ne: "new_effects self (on_connect self) =
        st @ map ReconnectedListenerCall (reconnectedListeners self)"
      by (rule new_effects_append)
    have d: "distinct (reconnectedListeners self)" using assms(1) by (simp add: Sets_ok_def)
    have "count_list (new_effects self (on_connect self)) (ReconnectedListenerCall l) = 1"
      if "l \<in> set (reconnectedListeners self)" for l
      using d no that by (simp add: ne count_list_map_inj [OF inj] count_list_distinct)
    moreover have "l \<in> set (reconnectedListeners self)"
      if "ReconnectedListenerCall l \<in> set (new_effects self (on_connect self))" for l
      using no' that by (auto simp: ne)
    ultimately show ?thesis using False by blast
  qed
qed

theorem on_connect_reconnected_listeners_witness:
  "count_list
     (new_effects
        (onReconnected (onReconnected (onReconnected
           (initialize apiSocket \<lparr>endpoint = ''api'', token = ''t''\<rparr>
              \<lparr>encryptRaw = rev, decryptRaw = rev\<rparr>) 1) 2) 1)
        (on_connect
           (onReconnected (onReconnected (onReconnected
              (initialize apiSocket \<lparr>endpoint = ''api'', token = ''t''\<rparr>
                 \<lparr>encryptRaw = rev, decryptRaw = rev\<rparr>) 1) 2) 1)))
     (ReconnectedListenerCall 1 :: (string, string) effect) = 1 \<and>
   (ReconnectedListenerCall 1 :: (string, string) effect) \<notin> set
     (new_effects
        ((onReconnected (onReconnected (onReconnected
           (initialize apiSocket \<lparr>endpoint = ''api'', token = ''t''\<rparr>
              \<lparr>encryptRaw = rev, decryptRaw = rev\<rparr>) 1) 2) 1)
           \<lparr>socket := Some \<lparr>connected = True, recovered = True\<rparr>\<rparr>)
        (on_connect
           ((onReconnected (onReconnected (onReconnected
              (initialize apiSocket \<lparr>endpoint = ''api'', token = ''t''\<rparr>
                 \<lparr>encryptRaw = rev, decryptRaw = rev\<rparr>) 1) 2) 1)
              \<lparr>socket := Some \<lparr>connected = True, recovered = True\<rparr>\<rparr>)))"
proof -
  let ?s = "onReconnected (onReconnected (onReconnected
           (initialize apiSocket \<lparr>endpoint = ''api'', token = ''t''\<rparr>
              \<lparr>encryptRaw = rev, decryptRaw = rev\<rparr>) 1) 2) 1 :: (string, string) ApiSocket"
  let ?r = "?s\<lparr>socket := Some \<lparr>connected = True, recovered = True\<rparr>\<rparr>"
  have ok: "Sets_ok ?s" by (simp add: eval_defs)
  have ok': "Sets_ok ?r" by (simp add: eval_defs)
  have sock: "socket ?s = Some \<lparr>connected = False, recovered = False\<rparr>"
    by (simp add: eval_defs)
  have sock': "socket ?r = Some \<lparr>connected = True, recovered = True\<rparr>"
    by simp
  have mem: "1 \<in> set (reconnectedListeners ?s)" by (simp add: eval_defs)
  from on_connect_reconnected_listeners [OF ok sock] mem
  have a: "count_list (new_effects ?s (on_connect ?s)) (ReconnectedListenerCall 1) = 1"
    by simp
  from on_connect_reconnected_listeners [OF ok' sock']
  have b: "ReconnectedListenerCall 1 \<notin> set (new_effects ?r (on_connect ?r))"
    by simp
  from a b show ?thesis by simp
qed

section \<open>Status listeners\<close>

text \<open>
  Claim C8. \<^verbatim>\<open>onStatusChange\<close> calls the new listener exactly once, with the current status,
  whatever that status is, and registers it without changing the status. In any later
  status update this call comes first in what the listener sees, and an update to another
  status is delivered to it.
\<close>

theorem onStatusChange_replays_current_status:
  "new_effects self (onStatusChange self listener) =
     [StatusListenerCall listener (currentStatus self)] \<and>
   listener \<in> set (statusListeners (onStatusChange self listener)) \<and>
   currentStatus (onStatusChange self listener) = currentStatus self \<and>
   (\<forall>status.
      new_effects self (updateStatus (onStatusChange self listener) status) =
        StatusListenerCall listener (currentStatus self) #
        new_effects (onStatusChange self listener)
          (updateStatus (onStatusChange self listener) status) \<and>
      (status \<noteq> currentStatus self \<longrightarrow>
         StatusListenerCall listener status \<in>
           set (new_effects (onStatusChange self listener)
                  (updateStatus (onStatusChange self listener) status))))"
  by (auto simp: onStatusChange_def Let_def perform_def new_effects_def trace_updateStatus
      Set_add_def)

theorem onStatusChange_replays_current_status_witness:
  "new_effects
     (on_connect (initialize apiSocket \<lparr>endpoint = ''api'', token = ''t''\<rparr>
        \<lparr>encryptRaw = rev, decryptRaw = rev\<rparr>))
     (onStatusChange
        (on_connect (initialize apiSocket \<lparr>endpoint = ''api'', token = ''t''\<rparr>
           \<lparr>encryptRaw = rev, decryptRaw = rev\<rparr>)) 5)
   = [StatusListenerCall 5 Connected :: (string, string) effect] \<and>
   new_effects
     (on_connect (initialize apiSocket \<lparr>endpoint = ''api'', token = ''t''\<rparr>
        \<lparr>encryptRaw = rev, decryptRaw = rev\<rparr>))
     (updateStatus (onStatusChange
        (on_connect (initialize apiSocket \<lparr>endpoint = ''api'', token = ''t''\<rparr>
           \<lparr>encryptRaw = rev, decryptRaw = rev\<rparr>)) 5) Disconnected)
   = [StatusListenerCall 5 Connected, StatusListenerCall 5 Disconnected :: (string, string) effect]"
proof -
  let ?s = "on_connect (initialize apiSocket \<lparr>endpoint = ''api'', token = ''t''\<rparr>
        \<lparr>encryptRaw = rev, decryptRaw = rev\<rparr>) :: (string, string) ApiSocket"
  have cur: "currentStatus ?s = Connected" by (simp add: eval_defs)
  have rest: "new_effects (onStatusChange ?s 5) (updateStatus (onStatusChange ?s 5) Disconnected)
      = [StatusListenerCall 5 Disconnected]"
    by (simp add: eval_defs)
  from onStatusChange_replays_current_status [of ?s 5] cur rest
  show ?thesis by simp
qed

section \<open>Message handlers\<close>

text \<open>
  Claim C9. After \<^verbatim>\<open>onMessage(e, h1)\<close> and then \<^verbatim>\<open>onMessage(e, h2)\<close>, an inbound event \<open>e\<close>
  calls \<open>h2\<close> once and nothing else, so never \<open>h1\<close> when the two differ; an inbound event
  with no handler leaves the transport as it was, with no call and no error.
\<close>

theorem onMessage_last_registration_wins:
  "new_effects (onMessage (onMessage self event h1) event h2)
     (on_any (onMessage (onMessage self event h1) event h2) event data) =
     [MessageHandlerCall h2 data] \<and>
   (h1 \<noteq> h2 \<longrightarrow>
      MessageHandlerCall h1 data \<notin>
        set (new_effects (onMessage (onMessage self event h1) event h2)
               (on_any (onMessage (onMessage self event h1) event h2) event data))) \<and>
   (messageHandlers self event = None \<longrightarrow> on_any self event data = self)"
  by (auto simp: onMessage_def on_any_def perform_def new_effects_def)

theorem onMessage_last_registration_wins_witness:
  "new_effects (onMessage (onMessage apiSocket ''update'' 1) ''update'' 2)
     (on_any (onMessage (onMessage apiSocket ''update'' 1) ''update'' 2) ''update'' ''d'')
   = [MessageHandlerCall 2 ''d'' :: (string, string) effect] \<and>
   (MessageHandlerCall 1 ''d'' :: (string, string) effect) \<notin> set
     (new_effects (onMessage (onMessage apiSocket ''update'' 1) ''update'' 2)
        (on_any (onMessage (onMessage apiSocket ''update'' 1) ''update'' 2) ''update'' ''d'')) \<and>
   on_any (onMessage (onMessage apiSocket ''update'' 1) ''update'' 2) ''ephemeral'' ''d''
   = (onMessage (onMessage apiSocket ''update'' 1) ''update'' 2 :: (string, string) ApiSocket)"
proof -
  have none: "messageHandlers (onMessage (onMessage
      (apiSocket :: (string, string) ApiSocket) ''update'' 1) ''update'' 2) ''ephemeral'' = None"
    by (simp add: onMessage_def apiSocket_def)
  from onMessage_last_registration_wins
      [where self = "apiSocket :: (string, string) ApiSocket" and event = "''update''"
         and ?h1.0 = 1 and ?h2.0 = 2 and data = "''d''"]
    onMessage_last_registration_wins
      [where self = "onMessage (onMessage (apiSocket :: (string, string) ApiSocket) ''update'' 1)
           ''update'' 2" and event = "''ephemeral''" and data = "''d''",
       THEN conjunct2, THEN conjunct2, rule_format, OF none]
  show ?thesis by simp
qed

end
